theory Spec2Isabelle
  imports Complex_Main
begin

section \<open>JSON values and Python dictionaries\<close>

text \<open>
  The script of \<^verbatim>\<open>src/main.py\<close> reshapes the dictionary that
  \<^verbatim>\<open>pydantic_model.model_json_schema()\<close> returns. That dictionary is a JSON value:
  strings, booleans, integers, floats, \<^verbatim>\<open>None\<close>, lists and dictionaries with string keys.
  A Python dictionary keeps its keys in insertion order without repetition; it is an
  association list here, so that the order of the keys can be stated. A finite float is
  the rational number it stands for; the conversion copies leaves and never inspects one.
\<close>

datatype json =
    JNull
  | JBool bool
  | JInt int
  | JFloat rat
  | JStr string
  | JList "json list"
  | JDict "(string \<times> json) list"

type_synonym dict = "(string \<times> json) list"

text \<open>\<^verbatim>\<open>d.get(key, default)\<close>: the value under the key, the default when the key is absent.
  It never raises.\<close>

definition dict_get :: "dict \<Rightarrow> string \<Rightarrow> json \<Rightarrow> json" where
  "dict_get d k dflt = (case map_of d k of Some v \<Rightarrow> v | None \<Rightarrow> dflt)"

text \<open>\<^verbatim>\<open>list(d.keys())\<close>: the keys in insertion order.\<close>

definition dict_keys :: "dict \<Rightarrow> string list" where
  "dict_keys d = map fst d"

section \<open>The model class and the response format\<close>

text \<open>
  The conversion uses one thing of the class it is given: the result of its class method
  \<^verbatim>\<open>model_json_schema()\<close>. A model class is therefore the record of that result; any
  dictionary is allowed, so that theorems about every \<open>pydantic_model\<close> hold for whatever
  the schema generator returns, nested definitions and extra keywords included.
\<close>

record pydantic_model =
  model_json_schema :: dict

text \<open>
  \<^verbatim>\<open>JSONSchema\<close> and \<^verbatim>\<open>ResponseFormatJSONSchema\<close> are the typed dictionaries of the
  OpenAI client; the script fills the keys \<^verbatim>\<open>name\<close>, \<^verbatim>\<open>schema\<close>, \<^verbatim>\<open>strict\<close> of the first
  and \<^verbatim>\<open>type\<close>, \<^verbatim>\<open>json_schema\<close> of the second. The name is whatever sits under
  \<^verbatim>\<open>"title"\<close>, so it is a JSON value.
\<close>

record JSONSchema =
  name :: json
  schema :: dict
  strict :: bool

record ResponseFormatJSONSchema =
  type :: string
  json_schema :: JSONSchema

text \<open>The function of \<^verbatim>\<open>src/main.py\<close>, lines 48 to 79, binding by binding.\<close>

definition pydantic_to_so_openai_schema :: "pydantic_model \<Rightarrow> ResponseFormatJSONSchema" where
  "pydantic_to_so_openai_schema pydantic_model =
     (let pydantic_schema = model_json_schema pydantic_model;
          openai_schema =
            [(''type'', JStr ''object''),
             (''properties'', dict_get pydantic_schema ''properties'' (JDict [])),
             (''required'', dict_get pydantic_schema ''required'' (JList [])),
             (''additionalProperties'', JBool False)];
          openai_json_schema =
            \<lparr>name = dict_get pydantic_schema ''title'' (JStr ''GeneratedSChema''),
             schema = openai_schema,
             strict = True\<rparr>;
          response_format_json_schema =
            \<lparr>type = ''json_schema'', json_schema = openai_json_schema\<rparr>
      in response_format_json_schema)"

section \<open>Model declarations and pydantic's schema generator\<close>

text \<open>
  A model declaration as the script writes one (\<^verbatim>\<open>class Person(BaseModel)\<close>): the class
  name, the docstring (after \<^verbatim>\<open>inspect.cleandoc\<close>, when there is one) and the annotated
  fields in declaration order, each with an optional default, given as it is encoded in
  the schema. An annotation is one of the four scalar types, a list, or the name of a
  model class of the module (the class itself included).
\<close>

datatype annotation = Tstr | Tint | Tfloat | Tbool | Tlist annotation | Tmodel string

record field_decl =
  field_name :: string
  field_type :: annotation
  field_default :: "json option"

record model_decl =
  class_name :: string
  class_doc :: "string option"
  class_fields :: "field_decl list"

text \<open>The classes of a module, by which an annotation names a class.\<close>

type_synonym py_module = "model_decl list"

text \<open>
  The generator itself is pydantic's, a third-party library that is not part of the
  repository. It is modelled after \<^verbatim>\<open>pydantic/json_schema.py\<close> (pydantic 2) for the
  declarations above: no alias, no \<^verbatim>\<open>Optional\<close>, no constraint, no configuration. The
  definitions below carry the names of the methods they follow.

  \<^verbatim>\<open>get_title_from_name\<close> is \<^verbatim>\<open>name.title().replace('_', ' ').strip()\<close>. On ASCII,
  \<^verbatim>\<open>str.title()\<close> lowers a letter that follows a letter and raises any other letter; the
  flag says whether the previous character was a letter.
\<close>

definition is_lower :: "char \<Rightarrow> bool" where
  "is_lower c = (97 \<le> (of_char c :: nat) \<and> (of_char c :: nat) \<le> 122)"

definition is_upper :: "char \<Rightarrow> bool" where
  "is_upper c = (65 \<le> (of_char c :: nat) \<and> (of_char c :: nat) \<le> 90)"

definition to_upper :: "char \<Rightarrow> char" where
  "to_upper c = (if is_lower c then char_of ((of_char c :: nat) - 32) else c)"

definition to_lower :: "char \<Rightarrow> char" where
  "to_lower c = (if is_upper c then char_of ((of_char c :: nat) + 32) else c)"

definition is_space :: "char \<Rightarrow> bool" where
  "is_space c = ((9 \<le> (of_char c :: nat) \<and> (of_char c :: nat) \<le> 13)
                 \<or> (28 \<le> (of_char c :: nat) \<and> (of_char c :: nat) \<le> 32))"

fun str_title :: "bool \<Rightarrow> string \<Rightarrow> string" where
  "str_title previous_is_cased [] = []"
| "str_title previous_is_cased (c # cs) =
     (if is_lower c \<or> is_upper c
      then (if previous_is_cased then to_lower c else to_upper c) # str_title True cs
      else c # str_title False cs)"

definition str_replace :: "char \<Rightarrow> char \<Rightarrow> string \<Rightarrow> string" where
  "str_replace old new s = map (\<lambda>c. if c = old then new else c) s"

definition str_strip :: "string \<Rightarrow> string" where
  "str_strip s = rev (dropWhile is_space (rev (dropWhile is_space s)))"

definition get_title_from_name :: "string \<Rightarrow> string" where
  "get_title_from_name n = str_strip (str_replace (CHR ''_'') (CHR '' '') (str_title False n))"

text \<open>
  The schema of an annotation (\<^verbatim>\<open>str_schema\<close>, \<^verbatim>\<open>int_schema\<close>, \<^verbatim>\<open>float_schema\<close>,
  \<^verbatim>\<open>bool_schema\<close>, \<^verbatim>\<open>list_schema\<close>); a model class is put into the definitions and
  referred to by \<^verbatim>\<open>#/$defs/\<close> and its name. Keys are in the order in which the
  generator's final \<^verbatim>\<open>sort\<close> leaves them, which is alphabetical.
\<close>

definition json_ref :: "string \<Rightarrow> string" where
  "json_ref n = ''#/$defs/'' @ n"

fun type_schema :: "annotation \<Rightarrow> dict" where
  "type_schema Tstr = [(''type'', JStr ''string'')]"
| "type_schema Tint = [(''type'', JStr ''integer'')]"
| "type_schema Tfloat = [(''type'', JStr ''number'')]"
| "type_schema Tbool = [(''type'', JStr ''boolean'')]"
| "type_schema (Tlist t) = [(''items'', JDict (type_schema t)), (''type'', JStr ''array'')]"
| "type_schema (Tmodel n) = [(''$ref'', JStr (json_ref n))]"

text \<open>\<^verbatim>\<open>field_title_should_be_set\<close>: a field gets a title from its name unless its schema
  is a reference.\<close>

definition field_title_should_be_set :: "annotation \<Rightarrow> bool" where
  "field_title_should_be_set t = (case t of Tmodel n \<Rightarrow> False | _ \<Rightarrow> True)"

text \<open>
  The entry of a field in \<^verbatim>\<open>properties\<close> (\<^verbatim>\<open>_named_required_fields_schema\<close> with
  \<^verbatim>\<open>default_schema\<close>): the annotation's schema, then the default when there is one, then
  the title. \<^verbatim>\<open>sort\<close> puts the keys in alphabetical order, except below a key
  \<^verbatim>\<open>properties\<close> or \<^verbatim>\<open>default\<close>: the entry of a field of that name keeps the order of
  construction.
\<close>

definition field_schema :: "field_decl \<Rightarrow> dict" where
  "field_schema f =
     (let dflt = (case field_default f of None \<Rightarrow> [] | Some d \<Rightarrow> [(''default'', d)]);
          title = (if field_title_should_be_set (field_type f)
                   then [(''title'', JStr (get_title_from_name (field_name f)))] else [])
      in if field_name f = ''properties'' \<or> field_name f = ''default''
         then (case field_type f of
                 Tlist t \<Rightarrow> [(''type'', JStr ''array''), (''items'', JDict (type_schema t))]
               | t \<Rightarrow> type_schema t) @ dflt @ title
         else (case field_type f of
                 Tmodel n \<Rightarrow> type_schema (Tmodel n) @ dflt
               | Tlist t \<Rightarrow> dflt @ [(''items'', JDict (type_schema t))] @ title
                            @ [(''type'', JStr ''array'')]
               | t \<Rightarrow> dflt @ title @ type_schema t))"

text \<open>\<^verbatim>\<open>field_is_required\<close>: a field is required when it has no default.\<close>

definition required_fields :: "field_decl list \<Rightarrow> string list" where
  "required_fields fs = map field_name (filter (\<lambda>f. field_default f = None) fs)"

text \<open>
  The schema of one class (\<^verbatim>\<open>model_schema\<close>, \<^verbatim>\<open>_update_class_schema\<close>): \<^verbatim>\<open>properties\<close>
  always, \<^verbatim>\<open>required\<close> when some field is required, the class name as \<^verbatim>\<open>title\<close>, the
  docstring as \<^verbatim>\<open>description\<close>; first with the keys as \<^verbatim>\<open>sort\<close> leaves them, then in
  the order of construction, which is kept in the definition of a class that is named
  \<^verbatim>\<open>properties\<close> or \<^verbatim>\<open>default\<close>.
\<close>

definition class_schema :: "model_decl \<Rightarrow> dict" where
  "class_schema c =
     (case class_doc c of None \<Rightarrow> [] | Some d \<Rightarrow> [(''description'', JStr d)])
     @ [(''properties'', JDict (map (\<lambda>f. (field_name f, JDict (field_schema f))) (class_fields c)))]
     @ (if required_fields (class_fields c) = [] then []
        else [(''required'', JList (map JStr (required_fields (class_fields c))))])
     @ [(''title'', JStr (class_name c)), (''type'', JStr ''object'')]"

definition class_schema_as_built :: "model_decl \<Rightarrow> dict" where
  "class_schema_as_built c =
     [(''type'', JStr ''object''),
      (''properties'', JDict (map (\<lambda>f. (field_name f, JDict (field_schema f))) (class_fields c)))]
     @ (if required_fields (class_fields c) = [] then []
        else [(''required'', JList (map JStr (required_fields (class_fields c))))])
     @ [(''title'', JStr (class_name c))]
     @ (case class_doc c of None \<Rightarrow> [] | Some d \<Rightarrow> [(''description'', JStr d)])"

text \<open>
  The classes a class refers to, directly or through the classes it uses. Every round
  adds the classes named by the ones found so far; a class is found after at most as
  many rounds as the module has classes.
\<close>

definition lookup_class :: "py_module \<Rightarrow> string \<Rightarrow> model_decl option" where
  "lookup_class env n = find (\<lambda>c. class_name c = n) env"

fun referenced_names :: "annotation \<Rightarrow> string list" where
  "referenced_names (Tmodel n) = [n]"
| "referenced_names (Tlist t) = referenced_names t"
| "referenced_names t = []"

definition class_references :: "model_decl \<Rightarrow> string list" where
  "class_references c = concat (map (\<lambda>f. referenced_names (field_type f)) (class_fields c))"

definition references_of :: "py_module \<Rightarrow> string \<Rightarrow> string list" where
  "references_of env n = (case lookup_class env n of None \<Rightarrow> [] | Some c \<Rightarrow> class_references c)"

fun reach :: "nat \<Rightarrow> py_module \<Rightarrow> string list \<Rightarrow> string list" where
  "reach 0 env ns = ns"
| "reach (Suc k) env ns = reach k env (remdups (ns @ concat (map (references_of env) ns)))"

definition reachable_classes :: "py_module \<Rightarrow> model_decl \<Rightarrow> string list" where
  "reachable_classes env m = reach (length env) env (remdups (class_references m))"

text \<open>A class is referred to from its own schema when it is among the classes it
  reaches.\<close>

definition self_referenced :: "py_module \<Rightarrow> model_decl \<Rightarrow> bool" where
  "self_referenced env m = (class_name m \<in> set (reachable_classes env m))"

text \<open>The definitions are sorted by name, as Python compares strings.\<close>

fun str_le :: "string \<Rightarrow> string \<Rightarrow> bool" where
  "str_le [] t = True"
| "str_le (c # cs) [] = False"
| "str_le (c # cs) (d # ds) =
     ((of_char c :: nat) < of_char d \<or> (c = d \<and> str_le cs ds))"

fun insert_name :: "string \<Rightarrow> string list \<Rightarrow> string list" where
  "insert_name n [] = [n]"
| "insert_name n (x # xs) = (if str_le n x then n # x # xs else x # insert_name n xs)"

definition sorted_names :: "string list \<Rightarrow> string list" where
  "sorted_names ns = foldr insert_name ns []"

definition definitions :: "py_module \<Rightarrow> model_decl \<Rightarrow> dict" where
  "definitions env m =
     concat (map (\<lambda>n. case lookup_class env n of
                         None \<Rightarrow> []
                       | Some c \<Rightarrow>
                           [(n, JDict (if n = ''properties'' \<or> n = ''default''
                                       then class_schema_as_built c else class_schema c))])
                 (sorted_names (reachable_classes env m)))"

text \<open>
  \<^verbatim>\<open>generate\<close>: the schema of a model class is at first a reference to its definition.
  The reference is replaced by the definition when it is the only reference to it;
  otherwise the top level stays \<^verbatim>\<open>{$defs, $ref}\<close> and has no \<^verbatim>\<open>properties\<close>,
  \<^verbatim>\<open>required\<close> or \<^verbatim>\<open>title\<close> of its own. Definitions that are not referred to are
  removed, and \<^verbatim>\<open>$defs\<close> is added when some are left.
\<close>

definition generate_json_schema :: "py_module \<Rightarrow> model_decl \<Rightarrow> dict" where
  "generate_json_schema env m =
     (if self_referenced env m
      then [(''$defs'', JDict (definitions env m)), (''$ref'', JStr (json_ref (class_name m)))]
      else (if definitions env m = [] then [] else [(''$defs'', JDict (definitions env m))])
           @ class_schema m)"

text \<open>
  A module Python and pydantic accept: class names are distinct, the field names of a
  class are distinct, and every class an annotation names is declared. The class object
  of a declaration exists for such a module only (otherwise the class statement or the
  call of \<^verbatim>\<open>model_json_schema()\<close> raises); its \<^verbatim>\<open>model_json_schema()\<close> is the generator's
  result.
\<close>

definition valid_module :: "py_module \<Rightarrow> bool" where
  "valid_module env =
     (distinct (map class_name env)
      \<and> list_all (\<lambda>c. distinct (map field_name (class_fields c))
                       \<and> list_all (\<lambda>n. lookup_class env n \<noteq> None) (class_references c)) env)"

definition BaseModel :: "py_module \<Rightarrow> model_decl \<Rightarrow> pydantic_model option" where
  "BaseModel env m =
     (if valid_module env \<and> m \<in> set env
      then Some \<lparr>model_json_schema = generate_json_schema env m\<rparr>
      else None)"

text \<open>\<^verbatim>\<open>class Person(BaseModel)\<close> of lines 26 to 38: the docstring and two string fields,
  no default. It is the only class of the script.\<close>

definition Person_doc :: string where
  "Person_doc =
     ''A class used to represent a Person.\<newline>\<newline>Attributes\<newline>----------\<newline>''
     @ ''full_name : str\<newline>    The full name of the person.\<newline>''
     @ ''date_of_birth : str\<newline>    The date of birth of the person in YYYY-MM-DD format.''"

definition Person_decl :: model_decl where
  "Person_decl =
     \<lparr>class_name = ''Person'',
      class_doc = Some Person_doc,
      class_fields =
        [\<lparr>field_name = ''full_name'', field_type = Tstr, field_default = None\<rparr>,
         \<lparr>field_name = ''date_of_birth'', field_type = Tstr, field_default = None\<rparr>]\<rparr>"

definition Person :: pydantic_model where
  "Person = \<lparr>model_json_schema = generate_json_schema [Person_decl] Person_decl\<rparr>"

text \<open>
  More declarations, on which the claims are tried. A tree node with a required
  list of tree nodes:
  \<^verbatim>\<open>class TreeNode(BaseModel): value: str; children: list['TreeNode']\<close>
\<close>

definition TreeNode_decl :: model_decl where
  "TreeNode_decl =
     \<lparr>class_name = ''TreeNode'', class_doc = None,
      class_fields =
        [\<lparr>field_name = ''value'', field_type = Tstr, field_default = None\<rparr>,
         \<lparr>field_name = ''children'', field_type = Tlist (Tmodel ''TreeNode''), field_default = None\<rparr>]\<rparr>"

definition TreeNode :: pydantic_model where
  "TreeNode = \<lparr>model_json_schema = generate_json_schema [TreeNode_decl] TreeNode_decl\<rparr>"

text \<open>A profile with a defaulted field:
  \<^verbatim>\<open>class Profile(BaseModel): full_name: str; nickname: str = 'none'\<close>\<close>

definition Profile_decl :: model_decl where
  "Profile_decl =
     \<lparr>class_name = ''Profile'', class_doc = None,
      class_fields =
        [\<lparr>field_name = ''full_name'', field_type = Tstr, field_default = None\<rparr>,
         \<lparr>field_name = ''nickname'', field_type = Tstr,
          field_default = Some (JStr ''none'')\<rparr>]\<rparr>"

definition Profile :: pydantic_model where
  "Profile = \<lparr>model_json_schema = generate_json_schema [Profile_decl] Profile_decl\<rparr>"

text \<open>An account with sub-accounts, empty by default:
  \<^verbatim>\<open>class Account(BaseModel): account_id: int; subaccounts: list['Account'] = []\<close>\<close>

definition Account_decl :: model_decl where
  "Account_decl =
     \<lparr>class_name = ''Account'', class_doc = None,
      class_fields =
        [\<lparr>field_name = ''account_id'', field_type = Tint, field_default = None\<rparr>,
         \<lparr>field_name = ''subaccounts'', field_type = Tlist (Tmodel ''Account''),
          field_default = Some (JList [])\<rparr>]\<rparr>"

definition Account :: pydantic_model where
  "Account = \<lparr>model_json_schema = generate_json_schema [Account_decl] Account_decl\<rparr>"




section \<open>Well-formed object schemas that permit no unknown property\<close>









text \<open>An annotation that names no model class.\<close>

fun model_free :: "annotation \<Rightarrow> bool" where
  "model_free (Tmodel n) = False"
| "model_free (Tlist t) = model_free t"
| "model_free t = True"

section \<open>The conversion on a heap\<close>

text \<open>
  Python dictionaries and lists are objects, held by reference. To state what a call
  leaves unchanged, and that two calls return equal structures in different objects, the
  conversion is written a second time over an explicit heap: a list of objects, an
  address being an index. Strings, booleans, numbers and \<^verbatim>\<open>None\<close> are immutable and
  stand for themselves. A model class is an object too. Allocation appends to the heap;
  the function has no other way to change it, as the source has no assignment to an
  existing object.
\<close>

type_synonym addr = nat

datatype pyval = VNone | VBool bool | VInt int | VFloat rat | VStr string | VRef addr

datatype pyobj = ODict "(string \<times> pyval) list" | OList "pyval list" | OClass pydantic_model

type_synonym heap = "pyobj list"

text \<open>The one exception the function can meet: its argument has no method
  \<^verbatim>\<open>model_json_schema\<close>, or \<^verbatim>\<open>get\<close> is called on something that is not a dictionary.\<close>

datatype error = AttributeError

text \<open>A new object: the next free address, and the heap with the object at it.\<close>

definition new :: "pyobj \<Rightarrow> heap \<Rightarrow> pyval \<times> heap" where
  "new ob h = (VRef (length h), h @ [ob])"

text \<open>
  \<^verbatim>\<open>model_json_schema()\<close> returns a dictionary made for the call; \<open>build\<close> allocates a
  JSON value, children first, left to right.
\<close>

fun build :: "json \<Rightarrow> heap \<Rightarrow> pyval \<times> heap"
  and build_list :: "json list \<Rightarrow> heap \<Rightarrow> pyval list \<times> heap"
  and build_items :: "(string \<times> json) list \<Rightarrow> heap \<Rightarrow> (string \<times> pyval) list \<times> heap"
where
  "build JNull h = (VNone, h)"
| "build (JBool b) h = (VBool b, h)"
| "build (JInt i) h = (VInt i, h)"
| "build (JFloat x) h = (VFloat x, h)"
| "build (JStr s) h = (VStr s, h)"
| "build (JList js) h = (case build_list js h of (vs, h') \<Rightarrow> new (OList vs) h')"
| "build (JDict kjs) h = (case build_items kjs h of (kvs, h') \<Rightarrow> new (ODict kvs) h')"
| "build_list [] h = ([], h)"
| "build_list (j # js) h =
     (case build j h of (v, h1) \<Rightarrow>
        (case build_list js h1 of (vs, h2) \<Rightarrow> (v # vs, h2)))"
| "build_items [] h = ([], h)"
| "build_items ((k, j) # kjs) h =
     (case build j h of (v, h1) \<Rightarrow>
        (case build_items kjs h1 of (kvs, h2) \<Rightarrow> ((k, v) # kvs, h2)))"

text \<open>\<open>repr h v j\<close>: in the heap \<open>h\<close> the value \<open>v\<close> is the JSON value \<open>j\<close>, followed
  through its references.\<close>

fun repr :: "heap \<Rightarrow> pyval \<Rightarrow> json \<Rightarrow> bool"
  and repr_list :: "heap \<Rightarrow> pyval list \<Rightarrow> json list \<Rightarrow> bool"
  and repr_items :: "heap \<Rightarrow> (string \<times> pyval) list \<Rightarrow> (string \<times> json) list \<Rightarrow> bool"
where
  "repr h v JNull = (v = VNone)"
| "repr h v (JBool b) = (v = VBool b)"
| "repr h v (JInt i) = (v = VInt i)"
| "repr h v (JFloat x) = (v = VFloat x)"
| "repr h v (JStr s) = (v = VStr s)"
| "repr h v (JList js) =
     (case v of
        VRef a \<Rightarrow> a < length h \<and> (case h ! a of OList vs \<Rightarrow> repr_list h vs js | _ \<Rightarrow> False)
      | _ \<Rightarrow> False)"
| "repr h v (JDict kjs) =
     (case v of
        VRef a \<Rightarrow> a < length h \<and> (case h ! a of ODict kvs \<Rightarrow> repr_items h kvs kjs | _ \<Rightarrow> False)
      | _ \<Rightarrow> False)"
| "repr_list h [] [] = True"
| "repr_list h (v # vs) (j # js) = (repr h v j \<and> repr_list h vs js)"
| "repr_list h _ _ = False"
| "repr_items h [] [] = True"
| "repr_items h ((k, v) # kvs) ((k', j) # kjs) = (k = k' \<and> repr h v j \<and> repr_items h kvs kjs)"
| "repr_items h _ _ = False"

text \<open>\<^verbatim>\<open>pydantic_model.model_json_schema()\<close> on the heap.\<close>

definition call_model_json_schema :: "pyval \<Rightarrow> heap \<Rightarrow> error + (pyval \<times> heap)" where
  "call_model_json_schema cls h =
     (case cls of
        VRef c \<Rightarrow>
          if c < length h
          then (case h ! c of
                  OClass pm \<Rightarrow> Inr (build (JDict (model_json_schema pm)) h)
                | _ \<Rightarrow> Inl AttributeError)
          else Inl AttributeError
      | _ \<Rightarrow> Inl AttributeError)"

text \<open>\<^verbatim>\<open>d.get(k, dflt)\<close> on the heap: the stored value itself (a reference when it is a
  container), not a copy.\<close>

definition heap_get :: "heap \<Rightarrow> pyval \<Rightarrow> string \<Rightarrow> pyval \<Rightarrow> error + pyval" where
  "heap_get h d k dflt =
     (case d of
        VRef a \<Rightarrow>
          if a < length h
          then (case h ! a of
                  ODict kvs \<Rightarrow> Inr (case map_of kvs k of Some v \<Rightarrow> v | None \<Rightarrow> dflt)
                | _ \<Rightarrow> Inl AttributeError)
          else Inl AttributeError
      | _ \<Rightarrow> Inl AttributeError)"

text \<open>
  The function of lines 48 to 79 with the heap passed along. The default arguments
  \<^verbatim>\<open>{}\<close> and \<^verbatim>\<open>[]\<close> are built before \<^verbatim>\<open>get\<close> is called, whether they are used or not, and
  the dictionary literal evaluates its values left to right before it is allocated.
\<close>

definition pydantic_to_so_openai_schema_st :: "pyval \<Rightarrow> heap \<Rightarrow> error + (pyval \<times> heap)" where
  "pydantic_to_so_openai_schema_st pydantic_model h0 =
     (case call_model_json_schema pydantic_model h0 of
        Inl e \<Rightarrow> Inl e
      | Inr (pydantic_schema, h1) \<Rightarrow>
     (case new (ODict []) h1 of (empty_dict, h2) \<Rightarrow>
     (case heap_get h2 pydantic_schema ''properties'' empty_dict of
        Inl e \<Rightarrow> Inl e
      | Inr properties \<Rightarrow>
     (case new (OList []) h2 of (empty_list, h3) \<Rightarrow>
     (case heap_get h3 pydantic_schema ''required'' empty_list of
        Inl e \<Rightarrow> Inl e
      | Inr required \<Rightarrow>
     (case new (ODict [(''type'', VStr ''object''),
                       (''properties'', properties),
                       (''required'', required),
                       (''additionalProperties'', VBool False)]) h3 of
        (openai_schema, h4) \<Rightarrow>
     (case heap_get h4 pydantic_schema ''title'' (VStr ''GeneratedSChema'') of
        Inl e \<Rightarrow> Inl e
      | Inr title \<Rightarrow>
     (case new (ODict [(''name'', title),
                       (''schema'', openai_schema),
                       (''strict'', VBool True)]) h4 of
        (openai_json_schema, h5) \<Rightarrow>
     (case new (ODict [(''type'', VStr ''json_schema''),
                       (''json_schema'', openai_json_schema)]) h5 of
        (response_format_json_schema, h6) \<Rightarrow>
          Inr (response_format_json_schema, h6))))))))))"

text \<open>The typed dictionaries of the result, as the plain dictionaries they are at run
  time, with the keys in the order of the keyword arguments.\<close>

definition as_json :: "ResponseFormatJSONSchema \<Rightarrow> json" where
  "as_json r =
     JDict [(''type'', JStr (type r)),
            (''json_schema'',
               JDict [(''name'', name (json_schema r)),
                      (''schema'', JDict (schema (json_schema r))),
                      (''strict'', JBool (strict (json_schema r)))])]"

text \<open>The heap after one call on \<^verbatim>\<open>Person\<close>, started from a heap that holds the class
  alone. The result's \<^verbatim>\<open>properties\<close> and \<^verbatim>\<open>required\<close> are the objects 3 and 4 of the
  generated schema, shared, not copied.\<close>

definition Person_heap :: heap where
  "Person_heap =
     [OClass Person,
      ODict [(''title'', VStr ''Full Name''), (''type'', VStr ''string'')],
      ODict [(''title'', VStr ''Date Of Birth''), (''type'', VStr ''string'')],
      ODict [(''full_name'', VRef 1), (''date_of_birth'', VRef 2)],
      OList [VStr ''full_name'', VStr ''date_of_birth''],
      ODict [(''description'', VStr Person_doc),
             (''properties'', VRef 3), (''required'', VRef 4),
             (''title'', VStr ''Person''), (''type'', VStr ''object'')],
      ODict [],
      OList [],
      ODict [(''type'', VStr ''object''), (''properties'', VRef 3),
             (''required'', VRef 4), (''additionalProperties'', VBool False)],
      ODict [(''name'', VStr ''Person''), (''schema'', VRef 8), (''strict'', VBool True)],
      ODict [(''type'', VStr ''json_schema''), (''json_schema'', VRef 9)]]"

section \<open>What the conversion builds\<close>

lemma schema_eq:
  "schema (json_schema (pydantic_to_so_openai_schema pm)) =
     [(''type'', JStr ''object''),
      (''properties'', dict_get (model_json_schema pm) ''properties'' (JDict [])),
      (''required'', dict_get (model_json_schema pm) ''required'' (JList [])),
      (''additionalProperties'', JBool False)]"
  by (simp add: pydantic_to_so_openai_schema_def Let_def)

lemma name_eq:
  "name (json_schema (pydantic_to_so_openai_schema pm)) =
     dict_get (model_json_schema pm) ''title'' (JStr ''GeneratedSChema'')"
  by (simp add: pydantic_to_so_openai_schema_def Let_def)

lemma strict_eq: "strict (json_schema (pydantic_to_so_openai_schema pm)) = True"
  by (simp add: pydantic_to_so_openai_schema_def Let_def)

lemma type_eq: "type (pydantic_to_so_openai_schema pm) = ''json_schema''"
  by (simp add: pydantic_to_so_openai_schema_def Let_def)

subsection \<open>What the generator returns\<close>

lemma class_schema_properties:
  "map_of (class_schema c) ''properties'' =
     Some (JDict (map (\<lambda>f. (field_name f, JDict (field_schema f))) (class_fields c)))"
  by (simp add: class_schema_def split: option.splits)

lemma class_schema_required:
  "dict_get (class_schema c) ''required'' (JList []) =
     JList (map JStr (required_fields (class_fields c)))"
  by (simp add: class_schema_def dict_get_def split: option.splits)

lemma class_schema_title: "map_of (class_schema c) ''title'' = Some (JStr (class_name c))"
  by (simp add: class_schema_def split: option.splits)

lemma generated_plain:
  "\<not> self_referenced env m \<Longrightarrow> k \<noteq> ''$defs'' \<Longrightarrow>
     map_of (generate_json_schema env m) k = map_of (class_schema m) k"
  by (simp add: generate_json_schema_def)

lemma generated_self:
  "self_referenced env m \<Longrightarrow> k \<noteq> ''$defs'' \<Longrightarrow> k \<noteq> ''$ref'' \<Longrightarrow>
     map_of (generate_json_schema env m) k = None"
  by (simp add: generate_json_schema_def)

lemma generated_properties:
  "\<not> self_referenced env m \<Longrightarrow>
     dict_get (generate_json_schema env m) ''properties'' d =
       JDict (map (\<lambda>f. (field_name f, JDict (field_schema f))) (class_fields m))"
  by (simp add: dict_get_def generated_plain class_schema_properties)

lemma generated_required:
  "\<not> self_referenced env m \<Longrightarrow>
     dict_get (generate_json_schema env m) ''required'' (JList []) =
       JList (map JStr (required_fields (class_fields m)))"
  using class_schema_required [of m] by (simp add: dict_get_def generated_plain)

lemma generated_title:
  "\<not> self_referenced env m \<Longrightarrow>
     map_of (generate_json_schema env m) ''title'' = Some (JStr (class_name m))"
  by (simp add: generated_plain class_schema_title)

lemma generated_self_get:
  "self_referenced env m \<Longrightarrow> k \<noteq> ''$defs'' \<Longrightarrow> k \<noteq> ''$ref'' \<Longrightarrow>
     dict_get (generate_json_schema env m) k d = d"
  by (simp add: dict_get_def generated_self)

lemma BaseModel_Some:
  "BaseModel env m = Some pm \<Longrightarrow>
     model_json_schema pm = generate_json_schema env m \<and> valid_module env \<and> m \<in> set env"
  by (auto simp: BaseModel_def split: if_splits)

lemma valid_distinct_fields:
  "valid_module env \<Longrightarrow> m \<in> set env \<Longrightarrow> distinct (map field_name (class_fields m))"
  by (auto simp: valid_module_def list_all_iff)

lemma required_fields_all:
  "\<forall>f \<in> set fs. field_default f = None \<Longrightarrow> required_fields fs = map field_name fs"
  by (simp add: required_fields_def)

lemma defaulted_not_required:
  assumes "distinct (map field_name fs)" "f \<in> set fs" "field_default f \<noteq> None"
  shows "field_name f \<notin> set (required_fields fs)"
proof
  assume "field_name f \<in> set (required_fields fs)"
  then obtain g where g: "g \<in> set fs" "field_default g = None" "field_name g = field_name f"
    by (auto simp: required_fields_def)
  from assms(1) have "inj_on field_name (set fs)" by (simp add: distinct_map)
  with g(1,3) assms(2) have "g = f" by (auto dest: inj_onD)
  with g(2) assms(3) show False by simp
qed

lemma reach_Nil: "reach k env [] = []"
  by (induction k) simp_all

lemma model_free_no_references: "model_free t \<Longrightarrow> referenced_names t = []"
  by (induction t) simp_all

lemma model_free_not_self_referenced:
  assumes "list_all (\<lambda>f. model_free (field_type f)) (class_fields m)"
  shows "\<not> self_referenced env m"
proof -
  have "concat (map (\<lambda>f. referenced_names (field_type f)) fs) = []"
    if "list_all (\<lambda>f. model_free (field_type f)) fs" for fs
    using that by (induction fs) (simp_all add: model_free_no_references)
  from this [OF assms] have "class_references m = []"
    by (simp add: class_references_def)
  then show ?thesis
    by (simp add: self_referenced_def reachable_classes_def reach_Nil)
qed

subsection \<open>When the copied entries make a closed object schema\<close>








section \<open>The conversion on the heap computes the same value\<close>

lemma new_ext: "new ob h = (v, h') \<Longrightarrow> h' = h @ [ob] \<and> v = VRef (length h)"
  by (auto simp: new_def)

lemma build_ext:
  "build j h = (v, h') \<Longrightarrow> \<exists>ext. h' = h @ ext"
  "build_list js h = (vs, h') \<Longrightarrow> \<exists>ext. h' = h @ ext"
  "build_items kjs h = (kvs, h') \<Longrightarrow> \<exists>ext. h' = h @ ext"
proof (induction j h and js h and kjs h arbitrary: v h' and vs h' and kvs h'
    rule: build_build_list_build_items.induct)
  case (6 js h)
  then show ?case by (auto simp: new_def split: prod.splits)
next
  case (7 kjs h)
  then show ?case by (auto simp: new_def split: prod.splits)
next
  case (9 j js h)
  then show ?case by (fastforce split: prod.splits)
next
  case (11 k j kjs h)
  then show ?case by (fastforce split: prod.splits)
qed auto

lemma repr_mono:
  "repr h v j \<Longrightarrow> repr (h @ ext) v j"
  "repr_list h vs js \<Longrightarrow> repr_list (h @ ext) vs js"
  "repr_items h kvs kjs \<Longrightarrow> repr_items (h @ ext) kvs kjs"
proof (induction h v j and h vs js and h kvs kjs rule: repr_repr_list_repr_items.induct)
  case (6 h v js)
  then show ?case by (auto simp: nth_append split: pyval.splits pyobj.splits)
next
  case (7 h v kjs)
  then show ?case by (auto simp: nth_append split: pyval.splits pyobj.splits)
qed auto

lemma build_repr:
  "build j h = (v, h') \<Longrightarrow> repr h' v j"
  "build_list js h = (vs, h') \<Longrightarrow> repr_list h' vs js"
  "build_items kjs h = (kvs, h') \<Longrightarrow> repr_items h' kvs kjs"
proof (induction j h and js h and kjs h arbitrary: v h' and vs h' and kvs h'
    rule: build_build_list_build_items.induct)
  case (6 js h)
  then show ?case by (auto simp: new_def nth_append repr_mono split: prod.splits)
next
  case (7 kjs h)
  then show ?case by (auto simp: new_def nth_append repr_mono split: prod.splits)
next
  case (9 j js h)
  then show ?case
    by (auto split: prod.splits dest!: build_ext(2) intro: repr_mono)
next
  case (11 k j kjs h)
  then show ?case
    by (auto split: prod.splits dest!: build_ext(3) intro: repr_mono)
qed auto

lemma repr_items_lookup:
  "repr_items h kvs kjs \<Longrightarrow> repr h d dj \<Longrightarrow>
     repr h (case map_of kvs k of Some v \<Rightarrow> v | None \<Rightarrow> d) (dict_get kjs k dj)"
proof (induction kvs arbitrary: kjs)
  case Nil
  then show ?case by (cases kjs) (auto simp: dict_get_def)
next
  case (Cons kv kvs)
  then obtain k' v where kv: "kv = (k', v)" by (cases kv)
  from Cons.prems(1) obtain j kjs' where kjs: "kjs = (k', j) # kjs'"
    and v: "repr h v j" and rest: "repr_items h kvs kjs'"
    unfolding kv by (cases kjs) auto
  from Cons.IH [OF rest Cons.prems(2)] v show ?case
    by (simp add: kv kjs dict_get_def)
qed

lemma heap_get_repr:
  assumes "repr h d (JDict kjs)" and "repr h dv dj"
  shows "\<exists>v. heap_get h d k dv = Inr v \<and> repr h v (dict_get kjs k dj)"
proof -
  from assms(1) obtain a kvs where d: "d = VRef a" "a < length h" "h ! a = ODict kvs"
    and items: "repr_items h kvs kjs"
    by (auto split: pyval.splits pyobj.splits)
  from repr_items_lookup [OF items assms(2)] d show ?thesis
    by (simp add: heap_get_def)
qed

lemma new_repr_dict:
  "repr_items h kvs kjs \<Longrightarrow> new (ODict kvs) h = (v, h') \<Longrightarrow> repr h' v (JDict kjs)"
  using repr_mono(3) [of h kvs kjs "[ODict kvs]"] by (auto simp: new_def)

lemma conversion_on_heap:
  assumes c: "c < length h" and cls: "h ! c = OClass pm"
  shows "\<exists>r h'. pydantic_to_so_openai_schema_st (VRef c) h = Inr (r, h')
          \<and> (\<exists>ext. h' = h @ ext)
          \<and> repr h' r (as_json (pydantic_to_so_openai_schema pm))"
proof -
  let ?S = "model_json_schema pm"
  obtain ps h1 where b: "build (JDict ?S) h = (ps, h1)" by force
  have call: "call_model_json_schema (VRef c) h = Inr (ps, h1)"
    using c cls b by (simp add: call_model_json_schema_def)
  from build_ext(1) [OF b] obtain e1 where h1: "h1 = h @ e1" ..
  have r1: "repr h1 ps (JDict ?S)" by (rule build_repr(1) [OF b])
  obtain ed h2 where n2: "new (ODict []) h1 = (ed, h2)" by force
  then have h2: "h2 = h1 @ [ODict []]" by (simp add: new_def)
  have ed: "repr h2 ed (JDict [])" by (rule new_repr_dict [OF _ n2]) simp
  have r2: "repr h2 ps (JDict ?S)" unfolding h2 by (rule repr_mono(1) [OF r1])
  from heap_get_repr [OF r2 ed] obtain p
    where gp: "heap_get h2 ps ''properties'' ed = Inr p"
      and rp: "repr h2 p (dict_get ?S ''properties'' (JDict []))" by blast
  obtain el h3 where n3: "new (OList []) h2 = (el, h3)" by force
  then have h3: "h3 = h2 @ [OList []]" by (simp add: new_def)
  have el: "repr h3 el (JList [])" using n3 by (auto simp: new_def)
  have r3: "repr h3 ps (JDict ?S)" unfolding h3 by (rule repr_mono(1) [OF r2])
  from heap_get_repr [OF r3 el] obtain q
    where gq: "heap_get h3 ps ''required'' el = Inr q"
      and rq: "repr h3 q (dict_get ?S ''required'' (JList []))" by blast
  have rp3: "repr h3 p (dict_get ?S ''properties'' (JDict []))"
    unfolding h3 by (rule repr_mono(1) [OF rp])
  let ?os = "[(''type'', VStr ''object''), (''properties'', p), (''required'', q),
              (''additionalProperties'', VBool False)]"
  obtain os h4 where n4: "new (ODict ?os) h3 = (os, h4)" by force
  then have h4: "h4 = h3 @ [ODict ?os]" by (simp add: new_def)
  have ros: "repr h4 os (JDict (schema (json_schema (pydantic_to_so_openai_schema pm))))"
    by (rule new_repr_dict [OF _ n4]) (simp add: schema_eq rp3 rq)
  have r4: "repr h4 ps (JDict ?S)" unfolding h4 by (rule repr_mono(1) [OF r3])
  have dt: "repr h4 (VStr ''GeneratedSChema'') (JStr ''GeneratedSChema'')" by simp
  from heap_get_repr [OF r4 dt] obtain t
    where gt: "heap_get h4 ps ''title'' (VStr ''GeneratedSChema'') = Inr t"
      and rt: "repr h4 t (name (json_schema (pydantic_to_so_openai_schema pm)))"
    unfolding name_eq by blast
  let ?js = "[(''name'', t), (''schema'', os), (''strict'', VBool True)]"
  obtain js h5 where n5: "new (ODict ?js) h4 = (js, h5)" by force
  then have h5: "h5 = h4 @ [ODict ?js]" by (simp add: new_def)
  have rjs: "repr h5 js (JDict [(''name'', name (json_schema (pydantic_to_so_openai_schema pm))),
                      (''schema'', JDict (schema (json_schema (pydantic_to_so_openai_schema pm)))),
                      (''strict'', JBool (strict (json_schema (pydantic_to_so_openai_schema pm))))])"
    by (rule new_repr_dict [OF _ n5]) (use rt ros in \<open>simp add: strict_eq\<close>)
  let ?rf = "[(''type'', VStr ''json_schema''), (''json_schema'', js)]"
  obtain rf h6 where n6: "new (ODict ?rf) h5 = (rf, h6)" by force
  then have h6: "h6 = h5 @ [ODict ?rf]" by (simp add: new_def)
  have rrf: "repr h6 rf (as_json (pydantic_to_so_openai_schema pm))"
    unfolding as_json_def by (rule new_repr_dict [OF _ n6]) (use rjs in \<open>simp add: type_eq\<close>)
  have run: "pydantic_to_so_openai_schema_st (VRef c) h = Inr (rf, h6)"
    by (simp add: pydantic_to_so_openai_schema_st_def call n2 gp n3 gq n4 gt n5 n6)
  have ext: "h6 = h @ (e1 @ [ODict [], OList [], ODict ?os, ODict ?js, ODict ?rf])"
    by (simp add: h6 h5 h4 h3 h2 h1)
  from run ext rrf show ?thesis by blast
qed

lemma repr_functional:
  "repr h v j \<Longrightarrow> repr h v j' \<Longrightarrow> j = j'"
  "repr_list h vs js \<Longrightarrow> repr_list h vs js' \<Longrightarrow> js = js'"
  "repr_items h kvs kjs \<Longrightarrow> repr_items h kvs kjs' \<Longrightarrow> kjs = kjs'"
proof (induction h v j and h vs js and h kvs kjs arbitrary: j' and js' and kjs'
    rule: repr_repr_list_repr_items.induct)
  case (1 h v)
  then show ?case by (cases j') (simp_all split: pyval.splits)
next
  case (2 h v b)
  then show ?case by (cases j') (simp_all split: pyval.splits)
next
  case (3 h v i)
  then show ?case by (cases j') (simp_all split: pyval.splits)
next
  case (4 h v x)
  then show ?case by (cases j') (simp_all split: pyval.splits)
next
  case (5 h v s)
  then show ?case by (cases j') (simp_all split: pyval.splits)
next
  case (6 h v js)
  from "6.prems"(1) obtain a vs where v: "v = VRef a" "h ! a = OList vs" "repr_list h vs js"
    by (auto split: pyval.splits pyobj.splits)
  from "6.prems"(2) v(1,2) obtain js' where j': "j' = JList js'" "repr_list h vs js'"
    by (cases j') simp_all
  from "6.IH" [OF v(1,2) v(3) j'(2)] j'(1) show ?case by simp
next
  case (7 h v kjs)
  from "7.prems"(1) obtain a kvs where v: "v = VRef a" "h ! a = ODict kvs" "repr_items h kvs kjs"
    by (auto split: pyval.splits pyobj.splits)
  from "7.prems"(2) v(1,2) obtain kjs' where j': "j' = JDict kjs'" "repr_items h kvs kjs'"
    by (cases j') simp_all
  from "7.IH" [OF v(1,2) v(3) j'(2)] j'(1) show ?case by simp
next
  case (8 h)
  then show ?case by (cases js') simp_all
next
  case (9 h v vs j js)
  from "9.prems"(2) obtain j' js'' where js': "js' = j' # js''" "repr h v j'" "repr_list h vs js''"
    by (cases js') simp_all
  from "9.prems"(1) have p: "repr h v j" "repr_list h vs js" by simp_all
  from "9.IH"(1) [OF p(1) js'(2)] "9.IH"(2) [OF p(2) js'(3)] js'(1) show ?case by simp
next
  case (11 h)
  then show ?case by (cases kjs') simp_all
next
  case (12 h k v kvs k' j kjs)
  from "12.prems"(2) obtain k'' j' kjs'' where kjs': "kjs' = (k'', j') # kjs''"
      "k = k''" "repr h v j'" "repr_items h kvs kjs''"
    by (cases kjs') auto
  from "12.prems"(1) have p: "k = k'" "repr h v j" "repr_items h kvs kjs" by simp_all
  from "12.IH"(1) [OF p(2) kjs'(3)] "12.IH"(2) [OF p(3) kjs'(4)] kjs'(1,2) p(1)
  show ?case by simp
qed simp_all

lemma st_only_on_class:
  assumes "pydantic_to_so_openai_schema_st cls h = Inr (r, h')"
  shows "\<exists>c pm. cls = VRef c \<and> c < length h \<and> h ! c = OClass pm"
proof -
  from assms have "\<exists>x. call_model_json_schema cls h = Inr x"
    by (cases "call_model_json_schema cls h") (auto simp: pydantic_to_so_openai_schema_st_def)
  then show ?thesis
    by (auto simp: call_model_json_schema_def split: pyval.splits if_splits pyobj.splits)
qed

lemma person_on_heap:
  "pydantic_to_so_openai_schema_st (VRef 0) [OClass Person] = Inr (VRef 10, Person_heap)"
  by code_simp

section \<open>The claims\<close>

text \<open>
  C1, as the code has it. The result's \<^verbatim>\<open>properties\<close> and \<^verbatim>\<open>required\<close> are those of the
  generated schema's top level (the empty dictionary and the empty list when absent).
  Take a declared class with fields \<open>f1..fn\<close>, none with a
  default. When the class is not referred to from its own schema, the schema inside the
  result has a \<^verbatim>\<open>properties\<close> dictionary whose keys are exactly \<open>f1..fn\<close> and a
  \<^verbatim>\<open>required\<close> list that is \<open>f1..fn\<close> in declaration order (for \<open>n = 0\<close> the generator
  emits no \<^verbatim>\<open>required\<close> key and the default of the conversion, the empty list, is the
  answer). When the class is referred to from its own schema, the generated schema has
  neither key at its top level, and the result has the defaults: no property and
  nothing required.
\<close>

theorem no_defaults_properties_required:
  assumes "BaseModel env m = Some pm"
    and "\<forall>f \<in> set (class_fields m). field_default f = None"
  shows "map_of (schema (json_schema (pydantic_to_so_openai_schema pm))) ''properties''
           = Some (dict_get (model_json_schema pm) ''properties'' (JDict []))
         \<and> map_of (schema (json_schema (pydantic_to_so_openai_schema pm))) ''required''
           = Some (dict_get (model_json_schema pm) ''required'' (JList []))
         \<and> (\<not> self_referenced env m \<longrightarrow>
            (\<exists>ps. map_of (schema (json_schema (pydantic_to_so_openai_schema pm))) ''properties'' = Some (JDict ps)
                \<and> dict_keys ps = map field_name (class_fields m)
                \<and> map_of (schema (json_schema (pydantic_to_so_openai_schema pm))) ''required''
                    = Some (JList (map JStr (map field_name (class_fields m))))))
         \<and> (self_referenced env m \<longrightarrow>
              map_of (schema (json_schema (pydantic_to_so_openai_schema pm))) ''properties'' = Some (JDict [])
              \<and> map_of (schema (json_schema (pydantic_to_so_openai_schema pm))) ''required'' = Some (JList []))"
proof -
  from BaseModel_Some [OF assms(1)]
  have g: "model_json_schema pm = generate_json_schema env m" by simp
  let ?ps = "map (\<lambda>f. (field_name f, JDict (field_schema f))) (class_fields m)"
  have k: "dict_keys ?ps = map field_name (class_fields m)"
    by (simp add: dict_keys_def comp_def)
  have plain: "map_of (schema (json_schema (pydantic_to_so_openai_schema pm))) ''properties'' = Some (JDict ?ps)
      \<and> map_of (schema (json_schema (pydantic_to_so_openai_schema pm))) ''required''
          = Some (JList (map JStr (map field_name (class_fields m))))"
    if n: "\<not> self_referenced env m"
    using required_fields_all [OF assms(2)]
    by (simp add: schema_eq g generated_properties [OF n] generated_required [OF n])
  have self: "map_of (schema (json_schema (pydantic_to_so_openai_schema pm))) ''properties'' = Some (JDict [])
      \<and> map_of (schema (json_schema (pydantic_to_so_openai_schema pm))) ''required'' = Some (JList [])"
    if s: "self_referenced env m"
    by (simp add: schema_eq g generated_self_get [OF s])
  have copy: "map_of (schema (json_schema (pydantic_to_so_openai_schema pm))) ''properties''
           = Some (dict_get (model_json_schema pm) ''properties'' (JDict []))
         \<and> map_of (schema (json_schema (pydantic_to_so_openai_schema pm))) ''required''
           = Some (dict_get (model_json_schema pm) ''required'' (JList []))"
    by (simp add: schema_eq)
  from copy plain k self show ?thesis by blast
qed

theorem no_defaults_properties_required_witness:
  "BaseModel [Person_decl] Person_decl = Some Person
   \<and> list_all (\<lambda>f. field_default f = None) (class_fields Person_decl)
   \<and> \<not> self_referenced [Person_decl] Person_decl
   \<and> (\<exists>ps. map_of (schema (json_schema (pydantic_to_so_openai_schema Person))) ''properties'' = Some (JDict ps)
          \<and> dict_keys ps = [''full_name'', ''date_of_birth'']
          \<and> map_of (schema (json_schema (pydantic_to_so_openai_schema Person))) ''required''
              = Some (JList [JStr ''full_name'', JStr ''date_of_birth'']))
   \<and> BaseModel [TreeNode_decl] TreeNode_decl = Some TreeNode
   \<and> list_all (\<lambda>f. field_default f = None) (class_fields TreeNode_decl)
   \<and> self_referenced [TreeNode_decl] TreeNode_decl
   \<and> map_of (schema (json_schema (pydantic_to_so_openai_schema TreeNode))) ''properties'' = Some (JDict [])
   \<and> map_of (schema (json_schema (pydantic_to_so_openai_schema TreeNode))) ''required'' = Some (JList [])"
proof -
  have b: "BaseModel [Person_decl] Person_decl = Some Person" by code_simp
  have d: "\<forall>f \<in> set (class_fields Person_decl). field_default f = None"
    by (simp add: Person_decl_def)
  have n: "\<not> self_referenced [Person_decl] Person_decl" by code_simp
  have f: "map field_name (class_fields Person_decl) = [''full_name'', ''date_of_birth'']"
    by (simp add: Person_decl_def)
  have b': "BaseModel [TreeNode_decl] TreeNode_decl = Some TreeNode" by code_simp
  have d': "\<forall>f \<in> set (class_fields TreeNode_decl). field_default f = None"
    by (simp add: TreeNode_decl_def)
  have s': "self_referenced [TreeNode_decl] TreeNode_decl" by code_simp
  from no_defaults_properties_required [OF b d] n
  have p: "\<exists>ps. map_of (schema (json_schema (pydantic_to_so_openai_schema Person))) ''properties'' = Some (JDict ps)
          \<and> dict_keys ps = map field_name (class_fields Person_decl)
          \<and> map_of (schema (json_schema (pydantic_to_so_openai_schema Person))) ''required''
              = Some (JList (map JStr (map field_name (class_fields Person_decl))))"
    by blast
  from no_defaults_properties_required [OF b' d'] s'
  have t: "map_of (schema (json_schema (pydantic_to_so_openai_schema TreeNode))) ''properties'' = Some (JDict [])
          \<and> map_of (schema (json_schema (pydantic_to_so_openai_schema TreeNode))) ''required'' = Some (JList [])"
    by blast
  from p f have p': "\<exists>ps. map_of (schema (json_schema (pydantic_to_so_openai_schema Person))) ''properties'' = Some (JDict ps)
          \<and> dict_keys ps = [''full_name'', ''date_of_birth'']
          \<and> map_of (schema (json_schema (pydantic_to_so_openai_schema Person))) ''required''
              = Some (JList [JStr ''full_name'', JStr ''date_of_birth''])"
    by simp
  from d d' have l: "list_all (\<lambda>f. field_default f = None) (class_fields Person_decl)"
      "list_all (\<lambda>f. field_default f = None) (class_fields TreeNode_decl)"
    by (simp_all add: list_all_iff)
  from b l n p' b' s' t show ?thesis by blast
qed

text \<open>
  C1 as stated, for every model description, fails on \<^verbatim>\<open>TreeNode\<close>: its fields
  \<^verbatim>\<open>value\<close> and \<^verbatim>\<open>children\<close> have no default, yet the result's properties are empty and
  nothing is required.
\<close>

theorem no_defaults_properties_required_counterexample:
  "BaseModel [TreeNode_decl] TreeNode_decl = Some TreeNode
   \<and> list_all (\<lambda>f. field_default f = None) (class_fields TreeNode_decl)
   \<and> map field_name (class_fields TreeNode_decl) = [''value'', ''children'']
   \<and> \<not> (\<exists>ps. map_of (schema (json_schema (pydantic_to_so_openai_schema TreeNode))) ''properties'' = Some (JDict ps)
            \<and> dict_keys ps = [''value'', ''children'']
            \<and> map_of (schema (json_schema (pydantic_to_so_openai_schema TreeNode))) ''required'' = Some (JList [JStr ''value'', JStr ''children'']))
   \<and> map_of (schema (json_schema (pydantic_to_so_openai_schema TreeNode))) ''properties'' = Some (JDict [])
   \<and> map_of (schema (json_schema (pydantic_to_so_openai_schema TreeNode))) ''required'' = Some (JList [])"
proof -
  have b: "BaseModel [TreeNode_decl] TreeNode_decl = Some TreeNode" by code_simp
  have d: "list_all (\<lambda>f. field_default f = None) (class_fields TreeNode_decl)"
    by (simp add: TreeNode_decl_def)
  have f: "map field_name (class_fields TreeNode_decl) = [''value'', ''children'']"
    by (simp add: TreeNode_decl_def)
  have p: "map_of (schema (json_schema (pydantic_to_so_openai_schema TreeNode))) ''properties'' = Some (JDict [])" by code_simp
  have r: "map_of (schema (json_schema (pydantic_to_so_openai_schema TreeNode))) ''required'' = Some (JList [])" by code_simp
  from b d f p r show ?thesis by (simp add: dict_keys_def)
qed

text \<open>
  C2. For every model class the schema inside the result has \<^verbatim>\<open>additionalProperties\<close>
  equal to \<^verbatim>\<open>False\<close>, whatever the generated schema says under that key; for a class
  without fields the schema is the object schema with empty \<^verbatim>\<open>properties\<close>, empty
  \<^verbatim>\<open>required\<close> and \<^verbatim>\<open>additionalProperties\<close> false.
\<close>

theorem additionalProperties_false:
  "map_of (schema (json_schema (pydantic_to_so_openai_schema pm))) ''additionalProperties''
     = Some (JBool False)
   \<and> map_of (schema (json_schema (pydantic_to_so_openai_schema
        \<lparr>model_json_schema = (''additionalProperties'', JBool True) # d\<rparr>)))
        ''additionalProperties''
     = Some (JBool False)
   \<and> schema (json_schema (pydantic_to_so_openai_schema
        \<lparr>model_json_schema =
           generate_json_schema env \<lparr>class_name = n, class_doc = doc, class_fields = []\<rparr>\<rparr>))
     = [(''type'', JStr ''object''), (''properties'', JDict []), (''required'', JList []),
        (''additionalProperties'', JBool False)]"
proof -
  let ?m = "\<lparr>class_name = n, class_doc = doc, class_fields = []\<rparr>"
  have "\<not> self_referenced env ?m"
    by (rule model_free_not_self_referenced) simp
  then show ?thesis
    by (simp add: schema_eq generated_properties generated_required required_fields_def)
qed

text \<open>
  C3, as the code has it. For \<^verbatim>\<open>Person\<close> the conversion returns the response format named
  \<^verbatim>\<open>Person\<close>, strict, whose schema is the object schema with both fields required and no
  additional properties; each property is the generator's entry for the field, copied as
  it is, and that entry holds the field's title next to its type.
\<close>

theorem person_response_format:
  "pydantic_to_so_openai_schema Person =
     \<lparr>type = ''json_schema'',
      json_schema =
        \<lparr>name = JStr ''Person'',
         schema =
           [(''type'', JStr ''object''),
            (''properties'',
               JDict [(''full_name'',
                         JDict [(''title'', JStr ''Full Name''), (''type'', JStr ''string'')]),
                      (''date_of_birth'',
                         JDict [(''title'', JStr ''Date Of Birth''), (''type'', JStr ''string'')])]),
            (''required'', JList [JStr ''full_name'', JStr ''date_of_birth'']),
            (''additionalProperties'', JBool False)],
         strict = True\<rparr>\<rparr>"
  by code_simp

text \<open>
  C3 as stated, with properties that hold the type alone, fails: the result differs from
  the stated value, and not by the order of keys, since the entry of \<^verbatim>\<open>full_name\<close> has a
  key \<^verbatim>\<open>title\<close>.
\<close>

theorem person_response_format_counterexample:
  "pydantic_to_so_openai_schema Person \<noteq>
     \<lparr>type = ''json_schema'',
      json_schema =
        \<lparr>name = JStr ''Person'',
         schema =
           [(''type'', JStr ''object''),
            (''properties'',
               JDict [(''full_name'', JDict [(''type'', JStr ''string'')]),
                      (''date_of_birth'', JDict [(''type'', JStr ''string'')])]),
            (''required'', JList [JStr ''full_name'', JStr ''date_of_birth'']),
            (''additionalProperties'', JBool False)],
         strict = True\<rparr>\<rparr>
   \<and> map_of (schema (json_schema (pydantic_to_so_openai_schema Person))) ''properties'' =
       Some (JDict [(''full_name'',
                       JDict [(''title'', JStr ''Full Name''), (''type'', JStr ''string'')]),
                    (''date_of_birth'',
                       JDict [(''title'', JStr ''Date Of Birth''), (''type'', JStr ''string'')])])"
  by code_simp






text \<open>
  C6. The name of the wrapper is what the generated schema holds under \<^verbatim>\<open>title\<close> when the
  key is present, the fixed string \<^verbatim>\<open>GeneratedSChema\<close> when it is absent, and \<^verbatim>\<open>strict\<close> is
  true. For a declared class that is not referred to from its own schema the title is
  there and is the class name.
\<close>

theorem name_and_strict:
  "(\<forall>t. map_of (model_json_schema pm) ''title'' = Some t \<longrightarrow>
        name (json_schema (pydantic_to_so_openai_schema pm)) = t)
   \<and> (map_of (model_json_schema pm) ''title'' = None \<longrightarrow>
        name (json_schema (pydantic_to_so_openai_schema pm)) = JStr ''GeneratedSChema'')
   \<and> strict (json_schema (pydantic_to_so_openai_schema pm)) = True
   \<and> (\<not> self_referenced env m \<longrightarrow>
        name (json_schema (pydantic_to_so_openai_schema
          \<lparr>model_json_schema = generate_json_schema env m\<rparr>)) = JStr (class_name m))"
  by (simp add: name_eq strict_eq dict_get_def generated_title)

theorem name_and_strict_witness:
  "map_of (model_json_schema Person) ''title'' = Some (JStr ''Person'')
   \<and> name (json_schema (pydantic_to_so_openai_schema Person)) = JStr ''Person''
   \<and> map_of [(''type'', JStr ''object'')] ''title'' = None
   \<and> name (json_schema (pydantic_to_so_openai_schema
        \<lparr>model_json_schema = [(''type'', JStr ''object'')]\<rparr>)) = JStr ''GeneratedSChema''
   \<and> strict (json_schema (pydantic_to_so_openai_schema Person)) = True
   \<and> \<not> self_referenced [Person_decl] Person_decl
   \<and> class_name Person_decl = ''Person''"
proof -
  have n: "\<not> self_referenced [Person_decl] Person_decl" by code_simp
  have t: "map_of (model_json_schema Person) ''title'' = Some (JStr ''Person'')"
    by (simp add: Person_def generated_title [OF n]) (simp add: Person_decl_def)
  have c: "class_name Person_decl = ''Person''" by (simp add: Person_decl_def)
  show ?thesis
    using t n c name_and_strict [of Person "[Person_decl]" Person_decl]
      name_and_strict [of "\<lparr>model_json_schema = [(''type'', JStr ''object'')]\<rparr>"]
    by simp
qed

text \<open>
  C7. Two calls on the same class, the second in the heap the first one left, both return,
  and in the final heap both results are the same JSON value: the value the function of
  the class's generated schema gives, and no JSON value fits one result without fitting
  the other. Nothing but the class is read, so there is no counter or clock to differ.
\<close>

theorem called_twice:
  assumes "c < length h" and "h ! c = OClass pm"
  shows "\<exists>r1 h1 r2 h2.
           pydantic_to_so_openai_schema_st (VRef c) h = Inr (r1, h1)
         \<and> pydantic_to_so_openai_schema_st (VRef c) h1 = Inr (r2, h2)
         \<and> repr h2 r1 (as_json (pydantic_to_so_openai_schema pm))
         \<and> repr h2 r2 (as_json (pydantic_to_so_openai_schema pm))
         \<and> (\<forall>j. repr h2 r1 j = repr h2 r2 j)"
proof -
  let ?J = "as_json (pydantic_to_so_openai_schema pm)"
  from conversion_on_heap [OF assms] obtain r1 h1 e1
    where s1: "pydantic_to_so_openai_schema_st (VRef c) h = Inr (r1, h1)"
      and h1: "h1 = h @ e1" and j1: "repr h1 r1 ?J" by blast
  from assms h1 have c1: "c < length h1" "h1 ! c = OClass pm" by (simp_all add: nth_append)
  from conversion_on_heap [OF c1] obtain r2 h2 e2
    where s2: "pydantic_to_so_openai_schema_st (VRef c) h1 = Inr (r2, h2)"
      and h2: "h2 = h1 @ e2" and j2: "repr h2 r2 ?J" by blast
  from j1 have j1': "repr h2 r1 ?J" unfolding h2 by (rule repr_mono(1))
  have "repr h2 r1 j = repr h2 r2 j" for j
    using repr_functional(1) [OF j1'] repr_functional(1) [OF j2] j1' j2 by blast
  with s1 s2 j1' j2 show ?thesis by blast
qed

theorem called_twice_witness:
  "(0::nat) < length [OClass Person]
   \<and> [OClass Person] ! 0 = OClass Person
   \<and> (\<exists>r1 h1 r2 h2.
           pydantic_to_so_openai_schema_st (VRef 0) [OClass Person] = Inr (r1, h1)
         \<and> pydantic_to_so_openai_schema_st (VRef 0) h1 = Inr (r2, h2)
         \<and> repr h2 r1 (as_json (pydantic_to_so_openai_schema Person))
         \<and> repr h2 r2 (as_json (pydantic_to_so_openai_schema Person))
         \<and> (\<forall>j. repr h2 r1 j = repr h2 r2 j))"
  using called_twice [of 0 "[OClass Person]" Person] by simp

text \<open>
  C8. A call that returns was made on a class, and it leaves every object that existed
  before it as it was, the class among them: the heap after the call is the heap before
  it followed by new objects. Its result is the JSON value that the function of the
  class's generated schema gives, so it depends on the class alone.
\<close>

theorem input_unchanged:
  assumes "pydantic_to_so_openai_schema_st cls h = Inr (r, h')"
  shows "\<exists>c pm. cls = VRef c \<and> c < length h \<and> h ! c = OClass pm
           \<and> h' ! c = OClass pm
           \<and> take (length h) h' = h
           \<and> repr h' r (as_json (pydantic_to_so_openai_schema pm))"
proof -
  from st_only_on_class [OF assms] obtain c pm
    where c: "cls = VRef c" "c < length h" "h ! c = OClass pm" by blast
  from conversion_on_heap [OF c(2,3)] assms c(1) obtain ext
    where h': "h' = h @ ext" and r: "repr h' r (as_json (pydantic_to_so_openai_schema pm))"
    by auto
  from h' c(2,3) have "h' ! c = OClass pm" by (simp add: nth_append)
  moreover from h' have "take (length h) h' = h" by simp
  ultimately show ?thesis using c r by blast
qed

theorem input_unchanged_witness:
  "pydantic_to_so_openai_schema_st (VRef 0) [OClass Person] = Inr (VRef 10, Person_heap)
   \<and> Person_heap ! 0 = OClass Person
   \<and> take (length [OClass Person]) Person_heap = [OClass Person]
   \<and> repr Person_heap (VRef 10) (as_json (pydantic_to_so_openai_schema Person))"
  using input_unchanged [OF person_on_heap] person_on_heap by auto

text \<open>
  C9. For every model class the schema inside the result has exactly the four keys
  \<^verbatim>\<open>type\<close>, \<^verbatim>\<open>properties\<close>, \<^verbatim>\<open>required\<close>, \<^verbatim>\<open>additionalProperties\<close>; every other key of the
  generated schema (its title, its definition tables) is absent from it.
\<close>

theorem schema_keys_exactly_four:
  "dict_keys (schema (json_schema (pydantic_to_so_openai_schema pm)))
     = [''type'', ''properties'', ''required'', ''additionalProperties'']
   \<and> (\<forall>k \<in> set (dict_keys (model_json_schema pm)).
        k \<notin> {''type'', ''properties'', ''required'', ''additionalProperties''} \<longrightarrow>
        map_of (schema (json_schema (pydantic_to_so_openai_schema pm))) k = None)"
  by (simp add: schema_eq dict_keys_def)

theorem schema_keys_exactly_four_witness:
  "''$defs'' \<in> set (dict_keys [(''$defs'', JDict [(''Address'', JDict [])]),
                                 (''properties'', JDict []), (''title'', JStr ''Customer'')])
   \<and> ''title'' \<in> set (dict_keys [(''$defs'', JDict [(''Address'', JDict [])]),
                                 (''properties'', JDict []), (''title'', JStr ''Customer'')])
   \<and> map_of (schema (json_schema (pydantic_to_so_openai_schema
        \<lparr>model_json_schema = [(''$defs'', JDict [(''Address'', JDict [])]),
                              (''properties'', JDict []), (''title'', JStr ''Customer'')]\<rparr>)))
        ''$defs'' = None
   \<and> map_of (schema (json_schema (pydantic_to_so_openai_schema
        \<lparr>model_json_schema = [(''$defs'', JDict [(''Address'', JDict [])]),
                              (''properties'', JDict []), (''title'', JStr ''Customer'')]\<rparr>)))
        ''title'' = None"
  using schema_keys_exactly_four
    [of "\<lparr>model_json_schema = [(''$defs'', JDict [(''Address'', JDict [])]),
                               (''properties'', JDict []), (''title'', JStr ''Customer'')]\<rparr>"]
  by (simp add: dict_keys_def)

text \<open>
  C10, as the code has it. The result's \<^verbatim>\<open>required\<close> list is the generated schema's
  top-level \<^verbatim>\<open>required\<close> list as it is (the empty list when the key is absent). For a
  declared class that is not referred to from its own schema, a field that has a default
  is a key of the result's \<^verbatim>\<open>properties\<close> and is not in the result's \<^verbatim>\<open>required\<close> list.
  For a class that is referred to from its own schema the result has no property and
  nothing required, so the field is in neither.
\<close>

theorem defaulted_field_not_required:
  assumes "BaseModel env m = Some pm"
    and "f \<in> set (class_fields m)"
    and "field_default f \<noteq> None"
  shows "map_of (schema (json_schema (pydantic_to_so_openai_schema pm))) ''required''
           = Some (dict_get (model_json_schema pm) ''required'' (JList []))
         \<and> (\<not> self_referenced env m \<longrightarrow>
              (\<exists>ps req. map_of (schema (json_schema (pydantic_to_so_openai_schema pm))) ''properties'' = Some (JDict ps)
                  \<and> field_name f \<in> set (dict_keys ps)
                  \<and> map_of (schema (json_schema (pydantic_to_so_openai_schema pm))) ''required'' = Some (JList req)
                  \<and> JStr (field_name f) \<notin> set req))
         \<and> (self_referenced env m \<longrightarrow>
              map_of (schema (json_schema (pydantic_to_so_openai_schema pm))) ''properties'' = Some (JDict [])
              \<and> map_of (schema (json_schema (pydantic_to_so_openai_schema pm))) ''required'' = Some (JList []))"
proof -
  from BaseModel_Some [OF assms(1)]
  have g: "model_json_schema pm = generate_json_schema env m"
    and v: "valid_module env" "m \<in> set env"
    by simp_all
  from v have d: "distinct (map field_name (class_fields m))"
    by (rule valid_distinct_fields)
  let ?ps = "map (\<lambda>f. (field_name f, JDict (field_schema f))) (class_fields m)"
  let ?req = "map JStr (required_fields (class_fields m))"
  have c: "map_of (schema (json_schema (pydantic_to_so_openai_schema pm))) ''required''
           = Some (dict_get (model_json_schema pm) ''required'' (JList []))"
    by (simp add: schema_eq)
  have k: "field_name f \<in> set (dict_keys ?ps)"
    using assms(2) by (force simp: dict_keys_def)
  have n: "JStr (field_name f) \<notin> set ?req"
    using defaulted_not_required [OF d assms(2,3)] by auto
  have plain: "map_of (schema (json_schema (pydantic_to_so_openai_schema pm))) ''properties'' = Some (JDict ?ps)
      \<and> map_of (schema (json_schema (pydantic_to_so_openai_schema pm))) ''required'' = Some (JList ?req)"
    if p: "\<not> self_referenced env m"
    by (simp add: schema_eq g generated_properties [OF p] generated_required [OF p])
  have self: "map_of (schema (json_schema (pydantic_to_so_openai_schema pm))) ''properties'' = Some (JDict [])
      \<and> map_of (schema (json_schema (pydantic_to_so_openai_schema pm))) ''required'' = Some (JList [])"
    if s: "self_referenced env m"
    by (simp add: schema_eq g generated_self_get [OF s])
  from c k n plain self show ?thesis by blast
qed

theorem defaulted_field_not_required_witness:
  "BaseModel [Profile_decl] Profile_decl = Some Profile
   \<and> field_default \<lparr>field_name = ''nickname'', field_type = Tstr,
                     field_default = Some (JStr ''none'')\<rparr> \<noteq> None
   \<and> \<not> self_referenced [Profile_decl] Profile_decl
   \<and> (\<exists>ps req. map_of (schema (json_schema (pydantic_to_so_openai_schema Profile))) ''properties'' = Some (JDict ps)
          \<and> ''nickname'' \<in> set (dict_keys ps)
          \<and> map_of (schema (json_schema (pydantic_to_so_openai_schema Profile))) ''required'' = Some (JList req)
          \<and> JStr ''nickname'' \<notin> set req
          \<and> req = [JStr ''full_name''])
   \<and> BaseModel [Account_decl] Account_decl = Some Account
   \<and> self_referenced [Account_decl] Account_decl
   \<and> map_of (schema (json_schema (pydantic_to_so_openai_schema Account))) ''properties'' = Some (JDict [])
   \<and> map_of (schema (json_schema (pydantic_to_so_openai_schema Account))) ''required'' = Some (JList [])"
proof -
  let ?f = "\<lparr>field_name = ''nickname'', field_type = Tstr, field_default = Some (JStr ''none'')\<rparr>"
  let ?g = "\<lparr>field_name = ''subaccounts'', field_type = Tlist (Tmodel ''Account''),
             field_default = Some (JList [])\<rparr>"
  have b: "BaseModel [Profile_decl] Profile_decl = Some Profile" by code_simp
  have i: "?f \<in> set (class_fields Profile_decl)" by (simp add: Profile_decl_def)
  have d: "field_default ?f \<noteq> None" by simp
  have n: "\<not> self_referenced [Profile_decl] Profile_decl" by code_simp
  have r: "map_of (schema (json_schema (pydantic_to_so_openai_schema Profile))) ''required'' = Some (JList [JStr ''full_name''])" by code_simp
  have b': "BaseModel [Account_decl] Account_decl = Some Account" by code_simp
  have i': "?g \<in> set (class_fields Account_decl)" by (simp add: Account_decl_def)
  have d': "field_default ?g \<noteq> None" by simp
  have s': "self_referenced [Account_decl] Account_decl" by code_simp
  from defaulted_field_not_required [OF b i d] defaulted_field_not_required [OF b' i' d']
    b d n r b' s'
  show ?thesis by auto
qed

text \<open>
  C10 as stated, for every model description with a defaulted field, fails on
  \<^verbatim>\<open>Account\<close>: \<^verbatim>\<open>subaccounts\<close> has a default, and it is not a key of the result's
  properties, which are empty.
\<close>

theorem defaulted_field_not_required_counterexample:
  "BaseModel [Account_decl] Account_decl = Some Account
   \<and> \<lparr>field_name = ''subaccounts'', field_type = Tlist (Tmodel ''Account''),
       field_default = Some (JList [])\<rparr> \<in> set (class_fields Account_decl)
   \<and> \<not> (\<exists>ps. map_of (schema (json_schema (pydantic_to_so_openai_schema Account))) ''properties'' = Some (JDict ps)
            \<and> ''subaccounts'' \<in> set (dict_keys ps))
   \<and> map_of (schema (json_schema (pydantic_to_so_openai_schema Account))) ''properties'' = Some (JDict [])"
proof -
  have b: "BaseModel [Account_decl] Account_decl = Some Account" by code_simp
  have i: "\<lparr>field_name = ''subaccounts'', field_type = Tlist (Tmodel ''Account''),
       field_default = Some (JList [])\<rparr> \<in> set (class_fields Account_decl)"
    by (simp add: Account_decl_def)
  have p: "map_of (schema (json_schema (pydantic_to_so_openai_schema Account))) ''properties'' = Some (JDict [])" by code_simp
  from b i p show ?thesis by (simp add: dict_keys_def)
qed

end
